theory Spec2Isabelle
  imports Main
begin

section \<open>Python strings\<close>

text \<open>
  The hook script \<^verbatim>\<open>vzdump-hook-script.py\<close> works on Python \<^verbatim>\<open>str\<close> values.
  A \<^typ>\<open>string\<close> here is the list of the code points of such a value; a \<^typ>\<open>char\<close>
  holds a code point below 256, so the model covers text in the Latin-1 range (every
  literal of the script is ASCII).
\<close>

definition isspace :: "char \<Rightarrow> bool" where
  \<comment> \<open>the characters \<^verbatim>\<open>str.strip()\<close> removes: \<^verbatim>\<open>str.isspace\<close> below code point 256\<close>
  "isspace c = (c \<in> set [CHR 0x09, CHR 0x0A, CHR 0x0B, CHR 0x0C, CHR 0x0D,
                           CHR 0x1C, CHR 0x1D, CHR 0x1E, CHR 0x1F, CHR 0x20,
                           CHR 0x85, CHR 0xA0])"

definition strip_chars :: "(char \<Rightarrow> bool) \<Rightarrow> string \<Rightarrow> string" where
  \<comment> \<open>\<^verbatim>\<open>s.strip(chars)\<close>: drop the leading and the trailing characters of the set\<close>
  "strip_chars p s = rev (dropWhile p (rev (dropWhile p s)))"

definition strip :: "string \<Rightarrow> string" where
  "strip s = strip_chars isspace s"

definition isdigit_char :: "char \<Rightarrow> bool" where
  \<comment> \<open>\<^verbatim>\<open>str.isdigit\<close> below code point 256: the decimal digits and the superscripts
      two, three and one\<close>
  "isdigit_char c = ((48 \<le> (of_char c :: nat) \<and> (of_char c :: nat) \<le> 57)
                     \<or> c \<in> set [CHR 0xB2, CHR 0xB3, CHR 0xB9])"

definition isdigit :: "string \<Rightarrow> bool" where
  \<comment> \<open>\<^verbatim>\<open>s.isdigit()\<close>: at least one character, and all of them digits\<close>
  "isdigit s = (s \<noteq> [] \<and> list_all isdigit_char s)"

definition lower_char :: "char \<Rightarrow> char" where
  "lower_char c =
     (let n = (of_char c :: nat)
      in if (65 \<le> n \<and> n \<le> 90) \<or> (192 \<le> n \<and> n \<le> 222 \<and> n \<noteq> 215)
         then char_of (n + 32) else c)"

definition lower :: "string \<Rightarrow> string" where
  "lower s = map lower_char s"

function replace_scan :: "string \<Rightarrow> string \<Rightarrow> string \<Rightarrow> string" where
  "replace_scan old new [] = []"
| "replace_scan old new (c # cs) =
     (if old \<noteq> [] \<and> take (length old) (c # cs) = old
      then new @ replace_scan old new (drop (length old) (c # cs))
      else c # replace_scan old new cs)"
  by pat_completeness auto
termination
  by (relation "measure (\<lambda>(old, new, s). length s)") (auto simp: neq_Nil_conv)

definition replace :: "string \<Rightarrow> string \<Rightarrow> string \<Rightarrow> string" where
  \<comment> \<open>\<^verbatim>\<open>s.replace(old, new)\<close>: every occurrence of \<open>old\<close>, scanning from the left,
      occurrences not overlapping; an empty \<open>old\<close> matches before every character and
      at the end\<close>
  "replace old new s =
     (if old = [] then new @ concat (map (\<lambda>c. c # new) s) else replace_scan old new s)"

function str_nat :: "nat \<Rightarrow> string" where
  "str_nat n = (if n < 10 then [char_of (48 + n)]
                else str_nat (n div 10) @ [char_of (48 + n mod 10)])"
  by pat_completeness auto
termination
  by (relation "measure id") auto

declare str_nat.simps [simp del]

section \<open>Slug builder\<close>

definition slug_char :: "char \<Rightarrow> bool" where
  \<comment> \<open>the class \<^verbatim>\<open>[a-zA-Z0-9_-]\<close> of the regular expression in \<^verbatim>\<open>slugify\<close>\<close>
  "slug_char c =
     (let n = (of_char c :: nat)
      in (97 \<le> n \<and> n \<le> 122) \<or> (65 \<le> n \<and> n \<le> 90) \<or> (48 \<le> n \<and> n \<le> 57)
         \<or> c = CHR ''_'' \<or> c = CHR ''-'')"

definition re_sub_nonslug :: "string \<Rightarrow> string" where
  \<comment> \<open>\<^verbatim>\<open>re.sub(r"[^a-zA-Z0-9_-]", "_", text)\<close>\<close>
  "re_sub_nonslug text = map (\<lambda>c. if slug_char c then c else CHR ''_'') text"

definition slugify :: "string \<Rightarrow> string \<Rightarrow> string" where
  "slugify text suffix =
     (let text1 = (if suffix \<noteq> [] then text @ '' '' @ suffix else text);
          text2 = replace '' '' ''__'' text1;
          text3 = replace ''.'' ''-'' text2
      in re_sub_nonslug text3)"

section \<open>Process state, fatal errors and logging\<close>

text \<open>
  What the script leaves behind: the pending error log \<^verbatim>\<open>ERRLOG\<close> (\<open>None\<close> while
  the file does not exist, otherwise its content), what was printed on standard output
  and on standard error (one entry per \<^verbatim>\<open>print\<close>), and the HTTP requests issued,
  oldest first. Opening \<^verbatim>\<open>ERRLOG\<close> for appending or reading is taken to succeed.

  A run ends in one of three ways: it returns, it calls \<^verbatim>\<open>error\<close>, which logs and
  leaves through \<^verbatim>\<open>sys.exit\<close> (no \<^verbatim>\<open>except Exception\<close> catches that), or an
  exception reaches the top; the traceback Python prints then is not recorded.
\<close>

record payload =
  p_name :: string
  p_slug :: string
  p_channels :: string
  p_timeout :: int
  p_tz :: string
  p_grace :: int
  p_desc :: string
  p_tags :: string
  p_unique :: "string list"

datatype request =
    Ping_post string string             \<comment> \<open>\<^verbatim>\<open>requests.post(ping_url, data=data)\<close>\<close>
  | Check_post string string payload    \<comment> \<open>\<^verbatim>\<open>requests.post(api_url, headers, json=payload)\<close>: URL, API key, payload\<close>
  | Check_get string string             \<comment> \<open>\<^verbatim>\<open>requests.get(url, headers)\<close>: URL, API key\<close>

record world =
  errlog :: "string option"
  stdout :: "string list"
  stderr :: "string list"
  sent :: "request list"

datatype fatal =
    Fatal string string nat
      \<comment> \<open>\<^verbatim>\<open>error(task, msg, exit_code)\<close>: the process ends in \<^verbatim>\<open>sys.exit(exit_code)\<close>\<close>
  | Uncaught string
      \<comment> \<open>an exception no handler catches ends the process; its text\<close>

type_synonym 'a prog = "world \<Rightarrow> (fatal + 'a) \<times> world"

definition bindp :: "'a prog \<Rightarrow> ('a \<Rightarrow> 'b prog) \<Rightarrow> 'b prog" where
  \<comment> \<open>run \<open>m\<close>, then \<open>f\<close> on its result; a fatal error ends the run\<close>
  "bindp m f w = (case m w of (Inl e, w') \<Rightarrow> (Inl e, w') | (Inr x, w') \<Rightarrow> f x w')"

definition ret :: "'a \<Rightarrow> 'a prog" where
  "ret x w = (Inr x, w)"

definition DEFAULT_ERROR_CODE :: nat where
  "DEFAULT_ERROR_CODE = 666"

definition append_errlog :: "string \<Rightarrow> world \<Rightarrow> world" where
  \<comment> \<open>\<^verbatim>\<open>with open(ERRLOG, "a") as f: f.write(text)\<close>: the file is created when missing\<close>
  "append_errlog text w =
     w\<lparr>errlog := Some ((case errlog w of None \<Rightarrow> [] | Some s \<Rightarrow> s) @ text)\<rparr>"

definition error_msg :: "string \<Rightarrow> string \<Rightarrow> nat \<Rightarrow> string" where
  "error_msg task msg exit_code =
     ''FATAL: '' @ [CHR 0x27] @ task @ [CHR 0x27] @ '' failed with exit code ''
       @ str_nat exit_code @ ''.''
       @ (if msg \<noteq> [] then [CHR 0x0A] @ ''CONTEXT: '' @ msg else [])"

definition error :: "string \<Rightarrow> string \<Rightarrow> nat \<Rightarrow> 'a prog" where
  "error task msg exit_code w =
     (Inl (Fatal task msg exit_code),
      append_errlog (error_msg task msg exit_code @ [CHR 0x0A])
        (w\<lparr>stderr := stderr w @ [error_msg task msg exit_code]\<rparr>))"

definition warn_msg :: "string \<Rightarrow> string \<Rightarrow> string" where
  "warn_msg task msg =
     ''WARNING: '' @ [CHR 0x27] @ task @ [CHR 0x27] @ '' issue.''
       @ (if msg \<noteq> [] then [CHR 0x0A] @ ''CONTEXT: '' @ msg else [])"

definition warn :: "string \<Rightarrow> string \<Rightarrow> unit prog" where
  "warn task msg w =
     (Inr (), append_errlog (warn_msg task msg @ [CHR 0x0A])
                (w\<lparr>stderr := stderr w @ [warn_msg task msg]\<rparr>))"

definition info :: "string \<Rightarrow> nat \<Rightarrow> string \<Rightarrow> unit prog" where
  \<comment> \<open>\<^verbatim>\<open>info(msg)\<close> called from line \<open>lineno\<close> of function \<open>caller\<close>\<close>
  "info caller lineno msg w =
     (Inr (), w\<lparr>stdout := stdout w
        @ [''MESG: '' @ [CHR 0x27] @ caller @ '':'' @ str_nat lineno @ [CHR 0x27] @ '' '' @ msg]\<rparr>)"

definition uncaught :: "string \<Rightarrow> 'a prog" where
  "uncaught e w = (Inl (Uncaught e), w)"

section \<open>Tags\<close>

definition add_tag :: "string \<Rightarrow> string \<Rightarrow> (string option) prog" where
  "add_tag key value =
     (if key = [] then error ''Key Validation'' ''Empty key'' DEFAULT_ERROR_CODE
      else if value = [] then ret None
      else if strip value \<noteq> [] then ret (Some ('' '' @ key @ ''='' @ replace '' '' ''_'' value))
      else ret None)"

section \<open>The host: files, commands and the monitoring service\<close>

text \<open>
  Everything the script asks of its surroundings is a field of \<open>host\<close>: the state of
  a path, \<^verbatim>\<open>shutil.which\<close>, the two ways it runs commands, and the answers of the
  monitoring service. An answer of the service may depend on the requests it has
  received before.
\<close>

datatype file_state =
    Missing               \<comment> \<open>\<^verbatim>\<open>exists()\<close> is false\<close>
  | Not_a_file            \<comment> \<open>exists, \<^verbatim>\<open>is_file()\<close> is false\<close>
  | Unreadable            \<comment> \<open>a file, \<^verbatim>\<open>os.access(path, os.R_OK)\<close> is false\<close>
  | Read_fails string     \<comment> \<open>opening or reading raises; the text of the exception\<close>
  | Content string

datatype checked_result =
  \<comment> \<open>\<^verbatim>\<open>subprocess.run(args, capture_output=True, text=True, check=True)\<close>\<close>
    Not_started string    \<comment> \<open>raises something other than \<^verbatim>\<open>CalledProcessError\<close>\<close>
  | Nonzero string        \<comment> \<open>\<^verbatim>\<open>CalledProcessError\<close>, with its text\<close>
  | Output string         \<comment> \<open>exit status 0, with the standard output\<close>

datatype shell_result =
  \<comment> \<open>\<^verbatim>\<open>subprocess.run(cmd, shell=True, capture_output=True, text=True)\<close>\<close>
    Shell_raised string
  | Shell_done int string \<comment> \<open>return code and standard output\<close>

record host =
  files :: "string \<Rightarrow> file_state"
  which :: "string \<Rightarrow> bool"
  run :: "string list \<Rightarrow> checked_result"
  shell :: "string \<Rightarrow> shell_result"
  post_ping :: "request list \<Rightarrow> string \<Rightarrow> string \<Rightarrow> string + string"
    \<comment> \<open>earlier requests, URL, body: \<open>Inl\<close> the text of the \<^verbatim>\<open>RequestException\<close> of
        \<^verbatim>\<open>requests.post\<close> or \<^verbatim>\<open>raise_for_status\<close>, \<open>Inr\<close> the \<^verbatim>\<open>response.url\<close>\<close>
  post_check :: "request list \<Rightarrow> string \<Rightarrow> string \<Rightarrow> payload \<Rightarrow> string option"
    \<comment> \<open>earlier requests, URL, API key, payload: \<open>Some\<close> the text of the
        \<^verbatim>\<open>RequestException\<close>, \<open>None\<close> for a 2xx answer holding JSON\<close>
  get_checks :: "request list \<Rightarrow> string \<Rightarrow> string \<Rightarrow> string + string list"
    \<comment> \<open>earlier requests, URL, API key: \<open>Inl\<close> the text of the exception raised before
        \<^verbatim>\<open>data["checks"]\<close> is a list of checks, \<open>Inr\<close> the \<^verbatim>\<open>ping_url\<close> of each check\<close>

section \<open>Module-level values\<close>

record globals =
  HC_BASE_DOMAIN :: string
  HC_PING_DOMAIN :: string
  HC_RW_API_KEY :: string
  HC_PING_KEY :: string
  TASK_ID :: string
  CLUSTER :: string
  NODE :: string
  HC_SLUG_SUFFIX :: string
  PHASE :: string
  MODE :: string
  VMID :: string
  VMTYPE :: string
  HC_VM_SLUG_PREFIX :: string
  STORAGE :: string
  LOGFILE :: string
  environ :: "string \<rightharpoonup> string"

definition HC_HOST_SLUG_PREFIX :: string where
  "HC_HOST_SLUG_PREFIX = ''job''"

definition getenv :: "(string \<rightharpoonup> string) \<Rightarrow> string \<Rightarrow> string \<Rightarrow> string" where
  \<comment> \<open>\<^verbatim>\<open>os.environ.get(key, default)\<close>\<close>
  "getenv env key dflt = (case env key of None \<Rightarrow> dflt | Some v \<Rightarrow> v)"

section \<open>Tags from files and commands\<close>

definition path_name :: "string \<Rightarrow> string" where
  \<comment> \<open>\<^verbatim>\<open>Path(filepath).name\<close> of a path that does not end in a slash\<close>
  "path_name p = rev (takeWhile (\<lambda>c. c \<noteq> CHR ''/'') (rev p))"

definition add_tag_from_file :: "host \<Rightarrow> string \<Rightarrow> string \<Rightarrow> (string option) prog" where
  "add_tag_from_file h filepath key =
     (case files h filepath of
        Missing \<Rightarrow> error ''Check file exists'' (''File '' @ filepath @ '' not found'') DEFAULT_ERROR_CODE
      | Not_a_file \<Rightarrow> error ''Check file type'' (filepath @ '' is not a file'') DEFAULT_ERROR_CODE
      | Unreadable \<Rightarrow> error ''Check file permissions'' (''Cannot read '' @ filepath) DEFAULT_ERROR_CODE
      | Read_fails e \<Rightarrow> uncaught e
      | Content c \<Rightarrow>
          (let key1 = (if key = [] then path_name filepath else key);
               value = strip c
           in add_tag (replace '' '' ''_'' key1) value))"

fun add_tag_from_cmd :: "host \<Rightarrow> string \<Rightarrow> string list \<Rightarrow> (string option) prog" where
  "add_tag_from_cmd h key [] = uncaught ''tuple index out of range''"
| "add_tag_from_cmd h key (cmd # rest) =
     (if \<not> which h cmd
      then error ''Validating command'' (''Command '' @ cmd @ '' not found'') DEFAULT_ERROR_CODE
      else (case run h (cmd # rest) of
              Not_started e \<Rightarrow> uncaught e
            | Nonzero e \<Rightarrow> error ''Tag Command Execution'' e DEFAULT_ERROR_CODE
            | Output out \<Rightarrow> add_tag (replace '' '' ''_'' key) (strip out)))"

declare add_tag_from_cmd.simps [simp del]

section \<open>Monitoring client\<close>

definition send_check :: "host \<Rightarrow> string \<Rightarrow> string \<Rightarrow> payload \<Rightarrow> unit prog" where
  \<comment> \<open>the \<^verbatim>\<open>try\<close> block of \<^verbatim>\<open>hc_create\<close>\<close>
  "send_check h api_url apikey pl w =
     (let w1 = w\<lparr>sent := sent w @ [Check_post api_url apikey pl]\<rparr>
      in case post_check h (sent w) api_url apikey pl of
           None \<Rightarrow> (Inr (), w1)
         | Some e \<Rightarrow> error ''Healthcheck Creation'' e DEFAULT_ERROR_CODE w1)"

definition get_timezone :: "host \<Rightarrow> string" where
  "get_timezone h =
     (case shell h ''timedatectl show --property Timezone | cut -d '=' -f2'' of
        Shell_raised e \<Rightarrow> ''UTC''
      | Shell_done rc out \<Rightarrow> if rc = 0 then strip out else ''UTC'')"

definition hc_create ::
  "host \<Rightarrow> globals \<Rightarrow> string \<Rightarrow> string \<Rightarrow> int \<Rightarrow> string \<Rightarrow> string \<Rightarrow> string \<Rightarrow> int
     \<Rightarrow> string \<Rightarrow> string \<Rightarrow> unit prog" where
  "hc_create h g name slug_prefix grace description tags channels timeout apikey url =
     bindp (if name = [] then error ''HC Create'' ''Name parameter is required'' DEFAULT_ERROR_CODE
            else ret ()) (\<lambda>_.
     bindp (if slug_prefix = []
            then error ''HC Create'' ''Slug prefix parameter is required'' DEFAULT_ERROR_CODE
            else ret ()) (\<lambda>_.
     bindp (if apikey = [] then error ''HC Create'' ''API key is required'' DEFAULT_ERROR_CODE
            else ret ()) (\<lambda>_.
     (let slug = slugify slug_prefix (HC_SLUG_SUFFIX g);
          timezone = get_timezone h;
          tags1 = lower (strip tags);
          pl = \<lparr>p_name = name, p_slug = slug, p_channels = channels, p_timeout = timeout,
                p_tz = timezone, p_grace = grace, p_desc = description, p_tags = tags1,
                p_unique = [''name'']\<rparr>
      in bindp (info ''hc_create'' 380 (''Creating/Updating check '' @ slug)) (\<lambda>_.
         send_check h (url @ ''/api/v3/checks/'') apikey pl)))))"

definition valid_reports :: "string list" where
  "valid_reports = ['''', ''start'', ''fail'', ''log'']"

definition read_tail :: "host \<Rightarrow> string \<Rightarrow> string prog" where
  \<comment> \<open>the \<^verbatim>\<open>if file:\<close> block of \<^verbatim>\<open>hc_ping\<close>: the checks on the path, then
      \<^verbatim>\<open>seek(0, SEEK_END); size = tell(); seek(max(0, size - 100000)); read()\<close>
      on a file whose characters are one byte each\<close>
  "read_tail h file =
     (case files h file of
        Missing \<Rightarrow> error ''Check file exists'' (''File '' @ file @ '' not found'') DEFAULT_ERROR_CODE
      | Not_a_file \<Rightarrow> error ''Check file type'' (file @ '' is not a file'') DEFAULT_ERROR_CODE
      | Unreadable \<Rightarrow> error ''Check file permissions'' (''Cannot read '' @ file) DEFAULT_ERROR_CODE
      | Read_fails e \<Rightarrow> error ''Read Log File'' e DEFAULT_ERROR_CODE
      | Content c \<Rightarrow>
          (let size = int (length c)
           in ret (drop (nat (max 0 (size - 100000))) c)))"

definition send_ping :: "host \<Rightarrow> string \<Rightarrow> string \<Rightarrow> string \<Rightarrow> string prog" where
  \<comment> \<open>the final \<^verbatim>\<open>try\<close> block of \<^verbatim>\<open>hc_ping\<close>\<close>
  "send_ping h report ping_url data w =
     (let w1 = w\<lparr>sent := sent w @ [Ping_post ping_url data]\<rparr>
      in case post_ping h (sent w) ping_url data of
           Inr u \<Rightarrow> (Inr u, w1)
         | Inl e \<Rightarrow>
             error (''Healthcheck Ping w/Data ('' @ (if report \<noteq> [] then report else ''success'') @ '')'')
               e DEFAULT_ERROR_CODE w1)"

definition ping_endpoint :: "string \<Rightarrow> string \<Rightarrow> string \<Rightarrow> string \<Rightarrow> string" where
  \<comment> \<open>\<^verbatim>\<open>ping_url = f"{url}/{pingkey}/{slug}"\<close>, then
      \<^verbatim>\<open>if report: ping_url += f"/{report}"\<close>\<close>
  "ping_endpoint url pingkey slug report =
     url @ ''/'' @ pingkey @ ''/'' @ slug @ (if report \<noteq> [] then ''/'' @ report else [])"

definition hc_ping ::
  "host \<Rightarrow> globals \<Rightarrow> string \<Rightarrow> string \<Rightarrow> string \<Rightarrow> string \<Rightarrow> string \<Rightarrow> string \<Rightarrow> string prog" where
  "hc_ping h g slug_prefix report file data pingkey url =
     bindp (if slug_prefix = []
            then error ''HC Ping'' ''Slug prefix parameter is required'' DEFAULT_ERROR_CODE
            else ret ()) (\<lambda>_.
     bindp (if pingkey = [] then error ''HC Ping'' ''Ping key is required'' DEFAULT_ERROR_CODE
            else ret ()) (\<lambda>_.
     bindp (if report \<noteq> [] \<and> report \<notin> set valid_reports \<and> \<not> isdigit report
            then error ''HC Ping''
                   (''Report status must be blank, start, fail, log, or a positive number. Got - ''
                      @ [CHR 0x27] @ report @ [CHR 0x27]) DEFAULT_ERROR_CODE
            else ret ()) (\<lambda>_.
     bindp (if file \<noteq> [] \<and> data \<noteq> []
            then error ''HC Ping'' ''File and Data arguments are mutually exclusive'' DEFAULT_ERROR_CODE
            else ret ()) (\<lambda>_.
     (let slug = slugify slug_prefix (HC_SLUG_SUFFIX g);
          ping_url = ping_endpoint url pingkey slug report
      in bindp (info ''hc_ping'' 420 (''PING ENDPOINT: '' @ ping_url)) (\<lambda>_.
         bindp (if file \<noteq> [] then read_tail h file else ret data) (\<lambda>data1.
         send_ping h report ping_url data1)))))))"

definition get_dashboard_url :: "host \<Rightarrow> globals \<Rightarrow> string \<Rightarrow> string \<Rightarrow> string \<Rightarrow> string prog" where
  "get_dashboard_url h g slug apikey base_url w =
     (let slug1 = slugify slug (HC_SLUG_SUFFIX g);
          url = base_url @ ''/api/v3/checks/?slug='' @ slug1;
          w1 = w\<lparr>sent := sent w @ [Check_get url apikey]\<rparr>
      in case get_checks h (sent w) url apikey of
           Inl e \<Rightarrow> error ''Get Dashboard URL'' e DEFAULT_ERROR_CODE w1
         | Inr [] \<Rightarrow> error ''Get Dashboard URL'' ''list index out of range'' DEFAULT_ERROR_CODE w1
         | Inr (ping_url # _) \<Rightarrow> (Inr (replace ''ping'' ''checks'' ping_url @ ''/details''), w1))"

definition check_jq_installed :: "host \<Rightarrow> unit prog" where
  "check_jq_installed h =
     (if \<not> which h ''jq''
      then bindp (info ''check_jq_installed'' 456 ''JQ could not be found, installing'') (\<lambda>_.
             if which h ''apt''
             then (case run h [''apt'', ''install'', ''-y'', ''jq''] of
                     Not_started e \<Rightarrow> uncaught e
                   | Nonzero e \<Rightarrow> error ''Installing jq'' ''apt install failed'' DEFAULT_ERROR_CODE
                   | Output out \<Rightarrow> ret ())
             else if which h ''dnf''
             then (case run h [''dnf'', ''install'', ''-y'', ''jq''] of
                     Not_started e \<Rightarrow> uncaught e
                   | Nonzero e \<Rightarrow> error ''Installing jq'' ''dnf install failed'' DEFAULT_ERROR_CODE
                   | Output out \<Rightarrow> ret ())
             else error ''Installing jq'' ''Unknown package manager'' DEFAULT_ERROR_CODE)
      else ret ())"

section \<open>Phase dispatcher\<close>

fun collect :: "(string option) prog list \<Rightarrow> (string option list) prog" where
  \<comment> \<open>the elements of a list display are evaluated from left to right\<close>
  "collect [] = ret []"
| "collect (m # ms) = bindp m (\<lambda>x. bindp (collect ms) (\<lambda>xs. ret (x # xs)))"

definition join_tags :: "string option list \<Rightarrow> string" where
  \<comment> \<open>\<^verbatim>\<open>for tag_data in [...]: if tag_data: tags += tag_data\<close>\<close>
  "join_tags ts = concat (map (\<lambda>t. case t of None \<Rightarrow> [] | Some s \<Rightarrow> s) ts)"

definition comment_lines :: "host \<Rightarrow> string \<Rightarrow> string" where
  \<comment> \<open>\<^verbatim>\<open>grep '^#' path | sed 's/^#//'\<close> in \<^verbatim>\<open>try\<close>/\<^verbatim>\<open>except Exception\<close>,
      the result stripped\<close>
  "comment_lines h path =
     (case shell h (''grep '^#' '' @ path @ '' | sed 's/^#//'' @ [CHR 0x27]) of
        Shell_raised e \<Rightarrow> []
      | Shell_done rc out \<Rightarrow> strip out)"

definition phase_body :: "globals \<Rightarrow> string" where
  \<comment> \<open>\<^verbatim>\<open>f"{PHASE}: {HC_VM_SLUG_PREFIX}"\<close>\<close>
  "phase_body g = PHASE g @ '': '' @ HC_VM_SLUG_PREFIX g"

definition job_init :: "host \<Rightarrow> globals \<Rightarrow> unit prog" where
  "job_init h g =
     bindp (collect
       [add_tag ''cluster'' (CLUSTER g),
        add_tag ''node'' (getenv (environ g) ''HOSTNAME'' []),
        add_tag ''storage'' (STORAGE g),
        add_tag_from_file h ''/etc/machine-id'' [],
        add_tag_from_cmd h ''arch'' [''uname'', ''--machine''],
        add_tag_from_cmd h ''kernel'' [''uname'', ''--kernel-release'']]) (\<lambda>ts.
     (let tags = join_tags ts;
          node_description = comment_lines h ''/etc/pve/local/config''
      in bindp (info ''main'' 506 (PHASE g @ '' -- Create ''
                  @ getenv (environ g) ''HOSTNAME'' ''unknown'' @ '' Endpoint'')) (\<lambda>_.
         hc_create h g (HC_SLUG_SUFFIX g) HC_HOST_SLUG_PREFIX 7200 node_description tags
           ''*'' 86400 (HC_RW_API_KEY g) (HC_BASE_DOMAIN g))))"

definition job_start :: "host \<Rightarrow> globals \<Rightarrow> unit prog" where
  "job_start h g =
     bindp (info ''main'' 517 (PHASE g @ '' -- Ping Host Start'')) (\<lambda>_.
     bindp (hc_ping h g HC_HOST_SLUG_PREFIX ''start'' [] [] (HC_PING_KEY g) (HC_PING_DOMAIN g)) (\<lambda>_.
     ret ()))"

definition guest_name :: "globals \<Rightarrow> string \<Rightarrow> string" where
  \<comment> \<open>\<^verbatim>\<open>f"{NODE}.{domain}.{VMTYPE}.{VMID}.{os.environ.get('HOSTNAME', 'unknown')}"\<close>\<close>
  "guest_name g domain =
     NODE g @ ''.'' @ domain @ ''.'' @ VMTYPE g @ ''.'' @ VMID g @ ''.''
       @ getenv (environ g) ''HOSTNAME'' ''unknown''"

definition backup_start :: "host \<Rightarrow> globals \<Rightarrow> unit prog" where
  "backup_start h g =
     bindp (collect
       [add_tag ''cluster'' (CLUSTER g),
        add_tag_from_cmd h ''node'' [''hostname''],
        add_tag ''storage'' (STORAGE g),
        add_tag ''mode'' (MODE g),
        add_tag ''vmid'' (VMID g),
        add_tag ''hostname'' (getenv (environ g) ''HOSTNAME'' []),
        add_tag ''type'' (getenv (environ g) ''HOSTTYPE'' []),
        add_tag ''vmtype'' (VMTYPE g)]) (\<lambda>ts.
     (let tags = join_tags ts;
          description =
            (if VMTYPE g = ''qemu''
             then comment_lines h (''/etc/pve/local/qemu-server/'' @ VMID g @ ''.conf'')
             else if VMTYPE g = ''lxc''
             then comment_lines h (''/etc/pve/local/lxc/'' @ VMID g @ ''.conf'')
             else [])
      in bindp (info ''main'' 556 (PHASE g @ '' -- Create ''
                  @ getenv (environ g) ''HOSTNAME'' ''unknown'' @ '' Endpoint'')) (\<lambda>_.
         bindp (case shell h ''hostname --domain'' of
                  Shell_raised e \<Rightarrow> uncaught e
                | Shell_done rc out \<Rightarrow> ret (strip out)) (\<lambda>domain.
         bindp (hc_create h g (guest_name g domain) (HC_VM_SLUG_PREFIX g) 3600 description tags
                  ''*'' 86400 (HC_RW_API_KEY g) (HC_BASE_DOMAIN g)) (\<lambda>_.
         bindp (info ''main'' 571 (PHASE g @ '' -- Ping '' @ VMTYPE g @ '' start'')) (\<lambda>_.
         bindp (hc_ping h g (HC_VM_SLUG_PREFIX g) ''start'' [] []
                  (HC_PING_KEY g) (HC_PING_DOMAIN g)) (\<lambda>_.
         bindp (info ''main'' 574 (PHASE g @ '' -- Ping Host Log'')) (\<lambda>_.
         bindp (hc_ping h g HC_HOST_SLUG_PREFIX ''log'' [] (phase_body g)
                  (HC_PING_KEY g) (HC_PING_DOMAIN g)) (\<lambda>_.
         ret ())))))))))"

definition guest_transition :: "host \<Rightarrow> globals \<Rightarrow> unit prog" where
  \<comment> \<open>the branch of the phases pre-stop, pre-restart and post-restart\<close>
  "guest_transition h g =
     bindp (info ''main'' 579 (PHASE g @ '' -- Ping '' @ VMTYPE g @ '' Log'')) (\<lambda>_.
     bindp (hc_ping h g (HC_VM_SLUG_PREFIX g) ''log'' [] (phase_body g)
              (HC_PING_KEY g) (HC_PING_DOMAIN g)) (\<lambda>_.
     bindp (info ''main'' 582 (PHASE g @ '' -- Ping Host Log'')) (\<lambda>_.
     bindp (hc_ping h g HC_HOST_SLUG_PREFIX ''log'' [] (phase_body g)
              (HC_PING_KEY g) (HC_PING_DOMAIN g)) (\<lambda>_.
     ret ()))))"

definition backup_end :: "host \<Rightarrow> globals \<Rightarrow> unit prog" where
  "backup_end h g =
     bindp (info ''main'' 588 (PHASE g @ '' -- Ping '' @ VMTYPE g @ '' Success'')) (\<lambda>_.
     bindp (hc_ping h g (HC_VM_SLUG_PREFIX g) [] [] (phase_body g)
              (HC_PING_KEY g) (HC_PING_DOMAIN g)) (\<lambda>_.
     bindp (info ''main'' 591 (PHASE g @ '' -- Ping Host Log'')) (\<lambda>_.
     bindp (hc_ping h g HC_HOST_SLUG_PREFIX ''log'' [] (phase_body g)
              (HC_PING_KEY g) (HC_PING_DOMAIN g)) (\<lambda>_.
     ret ()))))"

definition abort_line :: "globals \<Rightarrow> string \<Rightarrow> string" where
  \<comment> \<open>\<^verbatim>\<open>f"{TASK_ID} - {VMID} - Backup Abort - {url}"\<close>\<close>
  "abort_line g url = TASK_ID g @ '' - '' @ VMID g @ '' - Backup Abort - '' @ url"

definition backup_abort :: "host \<Rightarrow> globals \<Rightarrow> unit prog" where
  "backup_abort h g =
     bindp (info ''main'' 597 (PHASE g @ '' -- Ping '' @ VMTYPE g @ '' fail'')) (\<lambda>_.
     bindp (hc_ping h g (HC_VM_SLUG_PREFIX g) ''fail'' [] (phase_body g)
              (HC_PING_KEY g) (HC_PING_DOMAIN g)) (\<lambda>_.
     bindp (info ''main'' 600 (PHASE g @ '' -- Ping Host Log'')) (\<lambda>_.
     bindp (hc_ping h g HC_HOST_SLUG_PREFIX ''log'' [] (phase_body g)
              (HC_PING_KEY g) (HC_PING_DOMAIN g)) (\<lambda>_.
     bindp (get_dashboard_url h g (HC_VM_SLUG_PREFIX g) (HC_RW_API_KEY g) (HC_BASE_DOMAIN g)) (\<lambda>url.
     (\<lambda>w. (Inr (), (append_errlog (abort_line g url @ [CHR 0x0A]) w)
                      \<lparr>stdout := stdout w @ [abort_line g url]\<rparr>)))))))"

definition log_end :: "host \<Rightarrow> globals \<Rightarrow> unit prog" where
  "log_end h g =
     bindp (info ''main'' 611 (''LOGFILE: '' @ LOGFILE g)) (\<lambda>_.
     bindp (info ''main'' 612 (PHASE g @ '' -- Ping '' @ VMTYPE g @ '' Log'')) (\<lambda>_.
     (case shell h (''grep -v 'MESG' '' @ LOGFILE g @ '' | grep -v 'OKhttp'' @ [CHR 0x27]) of
        Shell_raised e \<Rightarrow> error ''Read Log File'' e DEFAULT_ERROR_CODE
      | Shell_done rc backup_log \<Rightarrow>
          bindp (hc_ping h g (HC_VM_SLUG_PREFIX g) ''log'' [] backup_log
                   (HC_PING_KEY g) (HC_PING_DOMAIN g)) (\<lambda>_.
          ret ()))))"

definition job_end :: "host \<Rightarrow> globals \<Rightarrow> unit prog" where
  "job_end h g w =
     (case errlog w of
        Some job_log \<Rightarrow>
          bindp (info ''main'' 630 (PHASE g @ '' -- Ping Host Fail'')) (\<lambda>_.
          bindp (hc_ping h g HC_HOST_SLUG_PREFIX ''fail'' [] job_log
                   (HC_PING_KEY g) (HC_PING_DOMAIN g)) (\<lambda>_.
          (\<lambda>w1. (Inr (), w1\<lparr>errlog := None\<rparr>)))) w
      | None \<Rightarrow>
          bindp (info ''main'' 634 (PHASE g @ '' -- Ping Host Success'')) (\<lambda>_.
          bindp (hc_ping h g HC_HOST_SLUG_PREFIX [] [] (TASK_ID g)
                   (HC_PING_KEY g) (HC_PING_DOMAIN g)) (\<lambda>_.
          ret ())) w)"

definition job_abort :: "host \<Rightarrow> globals \<Rightarrow> unit prog" where
  "job_abort h g =
     bindp (info ''main'' 639 (PHASE g @ '' -- Ping Host Fail'')) (\<lambda>_.
     (\<lambda>w. (let w1 = append_errlog (TASK_ID g @ '' - Job Abort'' @ [CHR 0x0A]) w;
                job_log = (case errlog w1 of None \<Rightarrow> [] | Some s \<Rightarrow> s)
            in bindp (hc_ping h g HC_HOST_SLUG_PREFIX ''fail'' [] job_log
                        (HC_PING_KEY g) (HC_PING_DOMAIN g)) (\<lambda>_.
               ret ()) w1)))"

definition unknown_phase :: "host \<Rightarrow> globals \<Rightarrow> unit prog" where
  \<comment> \<open>the final \<^verbatim>\<open>else\<close> branch\<close>
  "unknown_phase h g =
     bindp (info ''main'' 650 (PHASE g @ '' -- Ping Host Fail'')) (\<lambda>_.
     bindp (hc_ping h g HC_HOST_SLUG_PREFIX ''fail'' [] (''UNKNOWN: '' @ PHASE g)
              (HC_PING_KEY g) (HC_PING_DOMAIN g)) (\<lambda>_.
     warn ''Unknown Phase'' (PHASE g)))"

definition dispatch :: "host \<Rightarrow> globals \<Rightarrow> unit prog" where
  \<comment> \<open>the \<^verbatim>\<open>if\<close>/\<^verbatim>\<open>elif\<close> chain of \<^verbatim>\<open>main\<close>\<close>
  "dispatch h g =
     (if PHASE g = ''job-init'' then job_init h g
      else if PHASE g = ''job-start'' then job_start h g
      else if PHASE g = ''backup-start'' then backup_start h g
      else if PHASE g \<in> set [''pre-stop'', ''pre-restart'', ''post-restart'']
        then guest_transition h g
      else if PHASE g = ''backup-end'' then backup_end h g
      else if PHASE g = ''backup-abort'' then backup_abort h g
      else if PHASE g = ''log-end'' then log_end h g
      else if PHASE g = ''job-end'' then job_end h g
      else if PHASE g = ''job-abort'' then job_abort h g
      else unknown_phase h g)"

definition mask_key :: "string \<Rightarrow> string" where
  \<comment> \<open>\<^verbatim>\<open>f"{key[:4]}***{key[-4:]}"\<close>\<close>
  "mask_key k = take 4 k @ ''***'' @ drop (length k - 4) k"

definition config_msg :: "globals \<Rightarrow> string" where
  "config_msg g = ''Configuration: HC_BASE_DOMAIN='' @ HC_BASE_DOMAIN g
                    @ '', HC_PING_DOMAIN='' @ HC_PING_DOMAIN g"

definition keys_msg :: "globals \<Rightarrow> string" where
  "keys_msg g = ''Using API Key='' @ mask_key (HC_RW_API_KEY g)
                  @ '' and Ping Key='' @ mask_key (HC_PING_KEY g)"

definition main :: "host \<Rightarrow> globals \<Rightarrow> unit prog" where
  "main h g =
     bindp (info ''main'' 477 (config_msg g)) (\<lambda>_.
     bindp (info ''main'' 478 (keys_msg g)) (\<lambda>_.
     bindp (check_jq_installed h) (\<lambda>_.
     dispatch h g)))"

section \<open>Start-up: configuration and module-level values\<close>

definition DEFAULT_HC_BASE_DOMAIN :: string where
  "DEFAULT_HC_BASE_DOMAIN = ''https://healthchecks.cmbc.be''"

definition DEFAULT_HC_PING_DOMAIN :: string where
  "DEFAULT_HC_PING_DOMAIN = ''https://healthchecks.cmbc.be/ping''"

definition DEFAULT_HC_RW_API_KEY :: string where
  "DEFAULT_HC_RW_API_KEY = ''eJy4I0V41OJ7jM1tQy5gjtBgyJ9mz1Kd''"

definition DEFAULT_HC_PING_KEY :: string where
  "DEFAULT_HC_PING_KEY = ''oiB2qNQV2uGsYSxQAo3rxA''"

definition ENV_FILE :: string where
  "ENV_FILE = ''/etc/pve/healthchecks/variables.env''"

datatype env_file =
    No_file                \<comment> \<open>\<^verbatim>\<open>os.path.exists\<close> is false\<close>
  | Open_fails             \<comment> \<open>\<^verbatim>\<open>open\<close> raises\<close>
  | Lines "string list"    \<comment> \<open>the lines that iterating the file yields\<close>

definition putenv_rejects :: "string \<Rightarrow> string \<Rightarrow> bool" where
  \<comment> \<open>\<^verbatim>\<open>os.environ[key] = value\<close> raises \<^verbatim>\<open>ValueError\<close> for an empty name and for
      a null character in the name or the value (the name holds no \<^verbatim>\<open>=\<close> here)\<close>
  "putenv_rejects key value = (key = [] \<or> CHR 0x00 \<in> set key \<or> CHR 0x00 \<in> set value)"

definition is_quote :: "char \<Rightarrow> bool" where
  "is_quote c = (c = CHR 0x27 \<or> c = CHR 0x22)"

fun load_lines :: "string list \<Rightarrow> (string \<rightharpoonup> string) \<Rightarrow> bool \<times> (string \<rightharpoonup> string)" where
  \<comment> \<open>the loop of \<^verbatim>\<open>load_env_file\<close> over the lines; an exception leaves the loop,
      keeping the variables set so far, and the function returns \<^verbatim>\<open>False\<close>\<close>
  "load_lines [] env = (True, env)"
| "load_lines (l # ls) env =
     (let line = strip l
      in if line = [] \<or> hd line = CHR ''#'' then load_lines ls env
         else if CHR ''='' \<in> set line
         then (let key = takeWhile (\<lambda>c. c \<noteq> CHR ''='') line;
                   value = strip_chars is_quote (tl (dropWhile (\<lambda>c. c \<noteq> CHR ''='') line))
               in if putenv_rejects key value then (False, env)
                  else load_lines ls (env(key \<mapsto> value)))
         else load_lines ls env)"

definition load_env_file :: "env_file \<Rightarrow> (string \<rightharpoonup> string) \<Rightarrow> bool \<times> (string \<rightharpoonup> string)" where
  \<comment> \<open>\<^verbatim>\<open>load_env_file(file_path)\<close> on a path in the given state; the second component
      is \<^verbatim>\<open>os.environ\<close> afterwards\<close>
  "load_env_file f env =
     (case f of No_file \<Rightarrow> (False, env) | Open_fails \<Rightarrow> (False, env) | Lines ls \<Rightarrow> load_lines ls env)"

record args =
  \<comment> \<open>the namespace \<^verbatim>\<open>parse_args()\<close> returns; an option that was not given is \<open>None\<close>\<close>
  a_phase :: string
  a_mode :: string
  a_vmid :: string
  a_hc_domain :: "string option"
  a_hc_ping_domain :: "string option"
  a_hc_rw_key :: "string option"
  a_hc_ping_key :: "string option"
  a_env_file :: string

definition or_else :: "string option \<Rightarrow> string \<Rightarrow> string" where
  \<comment> \<open>\<^verbatim>\<open>a or b\<close> with \<open>a\<close> a string or \<^verbatim>\<open>None\<close>\<close>
  "or_else a b = (case a of None \<Rightarrow> b | Some v \<Rightarrow> if v \<noteq> [] then v else b)"

record config =
  c_base_domain :: string
  c_ping_domain :: string
  c_rw_api_key :: string
  c_ping_key :: string
  c_environ :: "string \<rightharpoonup> string"

definition resolve_config :: "(string \<Rightarrow> env_file) \<Rightarrow> (string \<rightharpoonup> string) \<Rightarrow> args \<Rightarrow> config" where
  \<comment> \<open>lines 80 to 122: \<open>fs\<close> gives the state of a path, \<open>env0\<close> is the environment of
      the process\<close>
  "resolve_config fs env0 a =
     (let env1 = snd (load_env_file (fs ENV_FILE) env0);
          base = getenv env1 ''HC_BASE_DOMAIN'' DEFAULT_HC_BASE_DOMAIN;
          ping = getenv env1 ''HC_PING_DOMAIN'' DEFAULT_HC_PING_DOMAIN;
          rw = getenv env1 ''HC_RW_API_KEY'' DEFAULT_HC_RW_API_KEY;
          pk = getenv env1 ''HC_PING_KEY'' DEFAULT_HC_PING_KEY;
          env2 = (if a_env_file a \<noteq> [] \<and> a_env_file a \<noteq> ENV_FILE
                  then snd (load_env_file (fs (a_env_file a)) env1) else env1)
      in \<lparr>c_base_domain = or_else (a_hc_domain a) base,
          c_ping_domain = or_else (a_hc_ping_domain a) ping,
          c_rw_api_key = or_else (a_hc_rw_key a) rw,
          c_ping_key = or_else (a_hc_ping_key a) pk,
          c_environ = env2\<rparr>)"

definition get_domain :: "host \<Rightarrow> string" where
  "get_domain h =
     (case shell h ''hostname --domain'' of
        Shell_raised e \<Rightarrow> ''local''
      | Shell_done rc out \<Rightarrow> strip out)"




section \<open>Auxiliary definitions\<close>

definition ping_args_rejected :: "string \<Rightarrow> string \<Rightarrow> string \<Rightarrow> string \<Rightarrow> string \<Rightarrow> bool" where
  \<comment> \<open>the conditions of the four checks at the head of \<^verbatim>\<open>hc_ping\<close>, lines 397 to 410\<close>
  "ping_args_rejected sp rep fl data pk =
    (sp = [] \<or> pk = [] \<or> (rep \<noteq> [] \<and> rep \<notin> set valid_reports \<and> \<not> isdigit rep)
       \<or> (fl \<noteq> [] \<and> data \<noteq> []))"

definition logged_endpoint :: "string \<Rightarrow> world \<Rightarrow> world" where
  \<comment> \<open>the state after \<^verbatim>\<open>info(f"PING ENDPOINT: {ping_url}")\<close> in \<^verbatim>\<open>hc_ping\<close>\<close>
  "logged_endpoint ep w = snd (info ''hc_ping'' 420 (''PING ENDPOINT: '' @ ep) w)"

definition pinged :: "string \<Rightarrow> string \<Rightarrow> world \<Rightarrow> world" where
  \<comment> \<open>the state after \<^verbatim>\<open>hc_ping\<close> has logged the endpoint and issued the request\<close>
  "pinged ep d w = (logged_endpoint ep w)\<lparr>sent := sent w @ [Ping_post ep d]\<rparr>"


definition errored :: "string \<Rightarrow> string \<Rightarrow> nat \<Rightarrow> world \<Rightarrow> world" where
  \<comment> \<open>the state in which \<^verbatim>\<open>error(task, msg, exit_code)\<close> ends the process\<close>
  "errored t m c w = append_errlog (error_msg t m c @ [CHR 0x0A]) (w\<lparr>stderr := stderr w @ [error_msg t m c]\<rparr>)"


definition for_check :: "globals \<Rightarrow> string \<Rightarrow> request \<Rightarrow> bool" where
  \<comment> \<open>the request addresses the check whose slug prefix is \<open>p\<close>: a ping to its
      endpoint with one of the report codes of the script, the creation of a check of
      its slug, or a lookup of its slug\<close>
  "for_check g p q =
     (case q of
        Ping_post url body \<Rightarrow>
          url \<in> set (map (ping_endpoint (HC_PING_DOMAIN g) (HC_PING_KEY g)
                             (slugify p (HC_SLUG_SUFFIX g))) valid_reports)
      | Check_post url key pl \<Rightarrow>
          url = HC_BASE_DOMAIN g @ ''/api/v3/checks/'' \<and> p_slug pl = slugify p (HC_SLUG_SUFFIX g)
      | Check_get url key \<Rightarrow>
          url = HC_BASE_DOMAIN g @ ''/api/v3/checks/?slug='' @ slugify p (HC_SLUG_SUFFIX g))"

definition named_guest :: "host \<Rightarrow> globals \<Rightarrow> request \<Rightarrow> bool" where
  \<comment> \<open>a request that creates a check gives it the composite name of the guest\<close>
  "named_guest h g q =
     (case q of Check_post url key pl \<Rightarrow> p_name pl = guest_name g (get_domain h) | _ \<Rightarrow> True)"

definition guest_phase_request :: "host \<Rightarrow> globals \<Rightarrow> request \<Rightarrow> bool" where
  "guest_phase_request h g q =
     ((for_check g HC_HOST_SLUG_PREFIX q \<or> for_check g (HC_VM_SLUG_PREFIX g) q) \<and> named_guest h g q)"

definition emits :: "(request \<Rightarrow> bool) \<Rightarrow> 'a prog \<Rightarrow> bool" where
  \<comment> \<open>whatever the outcome, the requests that \<open>m\<close> adds all satisfy \<open>P\<close>\<close>
  "emits P m = (\<forall>w. \<exists>new. sent (snd (m w)) = sent w @ new \<and> list_all P new)"

definition contacts :: "(request \<Rightarrow> bool) \<Rightarrow> (request \<Rightarrow> bool) \<Rightarrow> 'a prog \<Rightarrow> bool" where
  \<comment> \<open>as \<open>emits\<close>, and when \<open>m\<close> returns, one of the added requests satisfies \<open>Q\<close>\<close>
  "contacts P Q m =
     (\<forall>w. \<exists>new. sent (snd (m w)) = sent w @ new \<and> list_all P new
            \<and> ((\<exists>x. fst (m w) = Inr x) \<longrightarrow> list_ex Q new))"

section \<open>A sample run\<close>

text \<open>
  A host on which every command and every request succeeds, the module-level values of
  a run for guest 100 on node \<^verbatim>\<open>pve1\<close>, and the state before the first statement.
\<close>

definition demo_host :: host where
  "demo_host =
     \<lparr>files = (\<lambda>p. Missing),
      which = (\<lambda>c. True),
      run = (\<lambda>cmd. Output ''pve1''),
      shell = (\<lambda>cmd. Shell_done 0 ''example.com''),
      post_ping = (\<lambda>hist url body. Inr url),
      post_check = (\<lambda>hist url key pl. None),
      get_checks = (\<lambda>hist url key. Inr [''https://hc.shipping.example/ping/1f0e''])\<rparr>"

definition demo_globals :: "string \<Rightarrow> globals" where
  "demo_globals phase =
     \<lparr>HC_BASE_DOMAIN = ''https://hc.shipping.example'',
      HC_PING_DOMAIN = ''https://hc.shipping.example/ping'',
      HC_RW_API_KEY = ''rwkey'',
      HC_PING_KEY = ''pingkey'',
      TASK_ID = ''task UPID:pve1:0001'',
      CLUSTER = ''prod'',
      NODE = ''pve1'',
      HC_SLUG_SUFFIX = ''pve1.prod.example.com'',
      PHASE = phase,
      MODE = ''snapshot'',
      VMID = ''100'',
      VMTYPE = ''qemu'',
      HC_VM_SLUG_PREFIX = ''100-qemu'',
      STORAGE = ''local'',
      LOGFILE = ''/var/log/vzdump/qemu-100.log'',
      environ = Map.empty\<rparr>"


definition demo_world :: world where
  "demo_world = \<lparr>errlog = None, stdout = [], stderr = [], sent = []\<rparr>"

section \<open>Properties of the string functions\<close>


lemma replace_absent:
  "a \<notin> set s \<Longrightarrow> replace [a] new s = s"
  by (induction s) (auto simp: replace_def)

lemma slug_char_not_space: "slug_char c \<Longrightarrow> c \<noteq> CHR '' ''"
  by (auto simp: slug_char_def)

lemma slug_char_not_dot: "slug_char c \<Longrightarrow> c \<noteq> CHR ''.''"
  by (auto simp: slug_char_def)

lemma slug_char_underscore: "slug_char (CHR ''_'')"
  by (simp add: slug_char_def)

lemma re_sub_nonslug_all: "list_all slug_char (re_sub_nonslug s)"
  by (induction s) (simp_all add: re_sub_nonslug_def slug_char_underscore)

lemma re_sub_nonslug_id: "list_all slug_char s \<Longrightarrow> re_sub_nonslug s = s"
  by (simp add: re_sub_nonslug_def list_all_iff map_idI)

lemma slugify_chars: "list_all slug_char (slugify t s)"
  by (simp add: slugify_def Let_def re_sub_nonslug_all)

lemma slugify_normal:
  assumes "list_all slug_char s"
  shows "slugify s [] = s"
proof -
  from assms have sp: "CHR '' '' \<notin> set s" and dot: "CHR ''.'' \<notin> set s"
    by (auto simp: list_all_iff dest: slug_char_not_space slug_char_not_dot)
  from sp have "replace '' '' ''__'' s = s"
    by (rule replace_absent)
  moreover from dot have "replace ''.'' ''-'' s = s"
    by (rule replace_absent)
  ultimately show ?thesis
    using assms by (simp add: slugify_def re_sub_nonslug_id)
qed

lemma dropWhile_Nil_iff: "dropWhile p s = [] \<longleftrightarrow> list_all p s"
  by (simp add: list_all_iff)

lemma strip_chars_Nil_iff: "strip_chars p s = [] \<longleftrightarrow> list_all p s"
proof
  assume "strip_chars p s = []"
  then have a: "list_all p (dropWhile p s)"
    by (simp add: strip_chars_def dropWhile_Nil_iff list_all_iff)
  show "list_all p s"
  proof (cases "dropWhile p s")
    case Nil
    then show ?thesis by (simp add: list_all_iff)
  next
    case (Cons x xs)
    then have "\<not> p x"
      using hd_dropWhile [of p s] by simp
    with a Cons show ?thesis by simp
  qed
next
  assume "list_all p s"
  then have "dropWhile p s = []"
    by (simp add: list_all_iff)
  then show "strip_chars p s = []"
    by (simp only: strip_chars_def rev.simps dropWhile.simps)
qed

lemma strip_Nil_iff: "strip v = [] \<longleftrightarrow> list_all isspace v"
  by (simp add: strip_def strip_chars_Nil_iff)

section \<open>Running programs\<close>


lemma bindp_error [simp]: "bindp (error t m c) f = error t m c"
  by (rule ext) (simp add: bindp_def error_def)

lemma bindp_info [simp]:
  "bindp (info c n m) f w = f () (snd (info c n m w))"
  by (simp add: bindp_def info_def)

lemma info_fields [simp]:
  "sent (snd (info c n m w)) = sent w"
  "errlog (snd (info c n m w)) = errlog w"
  "stderr (snd (info c n m w)) = stderr w"
  by (simp_all add: info_def)

lemma error_fields [simp]:
  "fst (error t m c w) = Inl (Fatal t m c)"
  "sent (snd (error t m c w)) = sent w"
  by (simp_all add: error_def append_errlog_def)

lemma replace_char:
  "replace [a] [b] s = map (\<lambda>c. if c = a then b else c) s"
  by (induction s) (simp_all add: replace_def)

lemma strip_Nil [simp]: "strip [] = []"
  by (simp add: strip_def strip_chars_def)

section \<open>The ping operation\<close>

lemma send_ping_sent [simp]:
  "sent (snd (send_ping h rep u d w)) = sent w @ [Ping_post u d]"
  by (simp add: send_ping_def Let_def error_def append_errlog_def split: sum.splits)


lemma read_tail_sent [simp]: "sent (snd (read_tail h f w)) = sent w"
  by (simp add: read_tail_def ret_def Let_def error_def append_errlog_def split: file_state.splits)



lemma logged_endpoint_fields [simp]:
  "sent (logged_endpoint ep w) = sent w"
  "errlog (logged_endpoint ep w) = errlog w"
  "stderr (logged_endpoint ep w) = stderr w"
  by (simp_all add: logged_endpoint_def)












lemma demo_fields [simp]:
  "files demo_host p = Missing"
  "which demo_host c"
  "post_ping demo_host hist u b = Inr u"
  "post_check demo_host hist u k pl = None"
  "get_checks demo_host hist u k = Inr [''https://hc.shipping.example/ping/1f0e'']"
  "sent demo_world = []"
  "errlog demo_world = None"
  by (simp_all add: demo_host_def demo_world_def)

lemma isdigit_7 [simp]: "isdigit ''7''"
  by (simp add: isdigit_def isdigit_char_def)

lemma isdigit_bogus [simp]: "\<not> isdigit ''bogus''"
  by (simp add: isdigit_def isdigit_char_def)

section \<open>The dispatcher\<close>


lemma check_jq_sent: "sent (snd (check_jq_installed h w)) = sent w"
  by (auto simp: check_jq_installed_def bindp_def ret_def info_def error_def uncaught_def
        append_errlog_def
      split: checked_result.splits)



lemma bindp_Inl: "m w = (Inl e, w1) \<Longrightarrow> bindp m f w = (Inl e, w1)"
  by (simp add: bindp_def)



lemma pinged_fields [simp]:
  "sent (pinged ep d w) = sent w @ [Ping_post ep d]"
  "errlog (pinged ep d w) = errlog w"
  "stderr (pinged ep d w) = stderr w"
  by (simp_all add: pinged_def)


lemma host_ping_args [simp]:
  "pk \<noteq> [] \<Longrightarrow> \<not> ping_args_rejected HC_HOST_SLUG_PREFIX ''fail'' [] d pk"
  "pk \<noteq> [] \<Longrightarrow> \<not> ping_args_rejected HC_HOST_SLUG_PREFIX ''log'' [] d pk"
  "pk \<noteq> [] \<Longrightarrow> \<not> ping_args_rejected HC_HOST_SLUG_PREFIX ''start'' [] d pk"
  "pk \<noteq> [] \<Longrightarrow> \<not> ping_args_rejected HC_HOST_SLUG_PREFIX [] [] d pk"
  by (simp_all add: ping_args_rejected_def HC_HOST_SLUG_PREFIX_def valid_reports_def)


lemma errored_fields [simp]:
  "sent (errored t m c w) = sent w"
  "errlog (errored t m c w) \<noteq> None"
  "stderr (errored t m c w) = stderr w @ [error_msg t m c]"
  by (simp_all add: errored_def append_errlog_def)


lemma guest_ping_args:
  "pk \<noteq> [] \<Longrightarrow> rep \<in> set valid_reports \<Longrightarrow> \<not> ping_args_rejected (v @ ''-'' @ t) rep [] d pk"
  by (simp add: ping_args_rejected_def)


lemma demo_globals_fields [simp]:
  "PHASE (demo_globals p) = p"
  "HC_PING_KEY (demo_globals p) = ''pingkey''"
  "HC_PING_DOMAIN (demo_globals p) = ''https://hc.shipping.example/ping''"
  "HC_RW_API_KEY (demo_globals p) = ''rwkey''"
  "HC_BASE_DOMAIN (demo_globals p) = ''https://hc.shipping.example''"
  "HC_SLUG_SUFFIX (demo_globals p) = ''pve1.prod.example.com''"
  "HC_VM_SLUG_PREFIX (demo_globals p) = ''100-qemu''"
  "VMID (demo_globals p) = ''100''"
  "VMTYPE (demo_globals p) = ''qemu''"
  "TASK_ID (demo_globals p) = ''task UPID:pve1:0001''"
  by (simp_all add: demo_globals_def)


section \<open>The requests of a run\<close>

lemma contacts_emits: "contacts P Q m \<Longrightarrow> emits P m"
  by (auto simp: contacts_def emits_def)

lemma emitsI_same: "(\<And>w. sent (snd (m w)) = sent w) \<Longrightarrow> emits P m"
  by (simp add: emits_def)

lemma emits_simple [simp]:
  "emits P (ret x)"
  "emits P (error t m c)"
  "emits P (uncaught e)"
  "emits P (info cl n msg)"
  "emits P (warn t m)"
  by (rule emitsI_same, simp add: ret_def error_def uncaught_def info_def warn_def append_errlog_def)+

lemma emits_bindp:
  assumes "emits P m" and "\<And>x. emits P (f x)"
  shows "emits P (bindp m f)"
  unfolding emits_def
proof
  fix w
  from assms(1) obtain n1 where n1: "sent (snd (m w)) = sent w @ n1" "list_all P n1"
    by (auto simp: emits_def)
  show "\<exists>new. sent (snd (bindp m f w)) = sent w @ new \<and> list_all P new"
  proof (cases "m w")
    case (Pair r w1)
    show ?thesis
    proof (cases r)
      case (Inl e)
      with Pair n1 show ?thesis
        by (auto simp: bindp_def)
    next
      case (Inr x)
      from assms(2) [of x] obtain n2 where "sent (snd (f x w1)) = sent w1 @ n2" "list_all P n2"
        by (auto simp: emits_def)
      with Pair Inr n1 show ?thesis
        by (intro exI [of _ "n1 @ n2"]) (simp add: bindp_def)
    qed
  qed
qed








lemma emits_add_tag [simp]: "emits P (add_tag k v)"
  by (simp add: add_tag_def)

lemma emits_add_tag_from_file [simp]: "emits P (add_tag_from_file h f k)"
  by (simp add: add_tag_from_file_def Let_def split: file_state.splits)

lemma emits_add_tag_from_cmd [simp]: "emits P (add_tag_from_cmd h k cmd)"
  by (cases cmd) (simp_all add: add_tag_from_cmd.simps split: checked_result.splits)


lemma emits_check_jq [simp]: "emits P (check_jq_installed h)"
  by (rule emitsI_same) (rule check_jq_sent)

lemma contacts_fail [simp]:
  "contacts P Q (error t m c)"
  "contacts P Q (uncaught e)"
  by (simp_all add: contacts_def error_def uncaught_def append_errlog_def)

lemma for_check_ping:
  "rep \<in> set valid_reports \<Longrightarrow>
     for_check g p (Ping_post (ping_endpoint (HC_PING_DOMAIN g) (HC_PING_KEY g)
                                 (slugify p (HC_SLUG_SUFFIX g)) rep) body)"
  by (simp add: for_check_def)

lemma valid_reports_mem [simp]:
  "[] \<in> set valid_reports" "''start'' \<in> set valid_reports"
  "''fail'' \<in> set valid_reports" "''log'' \<in> set valid_reports"
  by (simp_all add: valid_reports_def)

lemma guest_phase_ping [simp]:
  "rep \<in> set valid_reports \<Longrightarrow>
     guest_phase_request h g (Ping_post (ping_endpoint (HC_PING_DOMAIN g) (HC_PING_KEY g)
                                 (slugify HC_HOST_SLUG_PREFIX (HC_SLUG_SUFFIX g)) rep) body)"
  "rep \<in> set valid_reports \<Longrightarrow>
     guest_phase_request h g (Ping_post (ping_endpoint (HC_PING_DOMAIN g) (HC_PING_KEY g)
                                 (slugify (HC_VM_SLUG_PREFIX g) (HC_SLUG_SUFFIX g)) rep) body)"
  by (simp_all add: guest_phase_request_def for_check_ping named_guest_def)









lemma emits_main: "emits P (dispatch h g) \<Longrightarrow> emits P (main h g)"
  unfolding main_def by (intro emits_bindp emits_simple emits_check_jq)









section \<open>Configuration\<close>

lemma keys_before_env_file:
  assumes "fs1 ENV_FILE = fs2 ENV_FILE"
  shows "c_base_domain (resolve_config fs1 env0 a) = c_base_domain (resolve_config fs2 env0 a)"
    and "c_ping_domain (resolve_config fs1 env0 a) = c_ping_domain (resolve_config fs2 env0 a)"
    and "c_rw_api_key (resolve_config fs1 env0 a) = c_rw_api_key (resolve_config fs2 env0 a)"
    and "c_ping_key (resolve_config fs1 env0 a) = c_ping_key (resolve_config fs2 env0 a)"
  using assms by (simp_all add: resolve_config_def Let_def)

lemma key_precedence:
  "c_ping_key (resolve_config fs env0 a) =
     (case a_hc_ping_key a of
        Some v \<Rightarrow> if v \<noteq> [] then v
                  else getenv (snd (load_env_file (fs ENV_FILE) env0)) ''HC_PING_KEY'' DEFAULT_HC_PING_KEY
      | None \<Rightarrow> getenv (snd (load_env_file (fs ENV_FILE) env0)) ''HC_PING_KEY'' DEFAULT_HC_PING_KEY)"
  by (simp add: resolve_config_def Let_def or_else_def split: option.splits)

section \<open>Claims\<close>

text \<open>
  C1. A file given with \<^verbatim>\<open>--env-file\<close> is loaded into the environment after the
  four keys have been read from it: with no other source for the ping key, a file
  \<^verbatim>\<open>/root/alt.env\<close> holding \<^verbatim>\<open>HC_PING_KEY=abc\<close> leaves the effective ping key
  at the built-in default, although the environment then holds \<^verbatim>\<open>abc\<close>.
\<close>

theorem env_file_option_ignored:
  "c_ping_key (resolve_config
       (\<lambda>p. if p = ''/root/alt.env'' then Lines [''HC_PING_KEY=abc''] else No_file)
       Map.empty
       \<lparr>a_phase = ''job-start'', a_mode = [], a_vmid = [], a_hc_domain = None,
        a_hc_ping_domain = None, a_hc_rw_key = None, a_hc_ping_key = None,
        a_env_file = ''/root/alt.env''\<rparr>) = DEFAULT_HC_PING_KEY
   \<and> c_environ (resolve_config
       (\<lambda>p. if p = ''/root/alt.env'' then Lines [''HC_PING_KEY=abc''] else No_file)
       Map.empty
       \<lparr>a_phase = ''job-start'', a_mode = [], a_vmid = [], a_hc_domain = None,
        a_hc_ping_domain = None, a_hc_rw_key = None, a_hc_ping_key = None,
        a_env_file = ''/root/alt.env''\<rparr>) ''HC_PING_KEY'' = Some ''abc''
   \<and> DEFAULT_HC_PING_KEY \<noteq> ''abc''"
  by (simp add: resolve_config_def Let_def load_env_file_def ENV_FILE_def getenv_def or_else_def
        strip_def strip_chars_def isspace_def is_quote_def putenv_rejects_def DEFAULT_HC_PING_KEY_def)

text \<open>
  C2. For every text and every suffix, \<open>slugify text suffix\<close> holds only characters
  of \<^verbatim>\<open>[A-Za-z0-9_-]\<close>, and \<open>slugify\<close> with the empty suffix maps every such output
  to itself.
\<close>

theorem slugify_charset_fixed_point:
  "list_all slug_char (slugify t s) \<and> slugify (slugify t s) [] = slugify t s"
  using slugify_chars [of t s] slugify_normal [of "slugify t s"] by simp







text \<open>
  C5. \<open>add_tag\<close> treats its two arguments differently: an empty key is a fatal
  error whatever the value; with a non-empty key, an empty or whitespace-only value
  gives nothing, without error and without any effect; otherwise the result is
  \<^verbatim>\<open>" key=value"\<close> with every space of the value replaced by an underscore, so
  \<^verbatim>\<open>add_tag("k", "v v")\<close> is \<^verbatim>\<open>" k=v_v"\<close>.
\<close>

theorem add_tag_cases:
  "(key = [] \<longrightarrow>
      fst (add_tag key v w) = Inl (Fatal ''Key Validation'' ''Empty key'' DEFAULT_ERROR_CODE))
   \<and> (key \<noteq> [] \<and> list_all isspace v \<longrightarrow> add_tag key v w = (Inr None, w))
   \<and> (key \<noteq> [] \<and> \<not> list_all isspace v \<longrightarrow>
        add_tag key v w
          = (Inr (Some ('' '' @ key @ ''='' @ map (\<lambda>c. if c = CHR '' '' then CHR ''_'' else c) v)), w))
   \<and> add_tag ''k'' ''v v'' w = (Inr (Some '' k=v_v''), w)"
proof (intro conjI impI)
  assume "key = []"
  then show "fst (add_tag key v w) = Inl (Fatal ''Key Validation'' ''Empty key'' DEFAULT_ERROR_CODE)"
    by (simp add: add_tag_def error_def)
next
  assume "key \<noteq> [] \<and> list_all isspace v"
  then show "add_tag key v w = (Inr None, w)"
    by (simp add: add_tag_def ret_def strip_Nil_iff)
next
  assume a: "key \<noteq> [] \<and> \<not> list_all isspace v"
  then have "v \<noteq> []"
    by auto
  with a show "add_tag key v w =
      (Inr (Some ('' '' @ key @ ''='' @ map (\<lambda>c. if c = CHR '' '' then CHR ''_'' else c) v)), w)"
    by (simp add: add_tag_def ret_def replace_char strip_Nil_iff)
next
  show "add_tag ''k'' ''v v'' w = (Inr (Some '' k=v_v''), w)"
    by (simp add: add_tag_def ret_def strip_def strip_chars_def isspace_def replace_char)
qed

theorem add_tag_cases_witness:
  "fst (add_tag [] ''x'' demo_world)
     = Inl (Fatal ''Key Validation'' ''Empty key'' DEFAULT_ERROR_CODE)
   \<and> add_tag ''k'' [] demo_world = (Inr None, demo_world)
   \<and> add_tag ''k'' ''   '' demo_world = (Inr None, demo_world)
   \<and> add_tag ''mode'' ''stop now'' demo_world = (Inr (Some '' mode=stop_now''), demo_world)"
proof -
  have sp: "list_all isspace ''   ''" and st: "\<not> list_all isspace ''stop now''"
    by (simp_all add: isspace_def)
  from add_tag_cases [of "[]" "''x''" demo_world]
  have a: "fst (add_tag [] ''x'' demo_world)
             = Inl (Fatal ''Key Validation'' ''Empty key'' DEFAULT_ERROR_CODE)"
    by simp
  from add_tag_cases [of "''k''" "[]" demo_world]
  have b: "add_tag ''k'' [] demo_world = (Inr None, demo_world)"
    by simp
  from add_tag_cases [of "''k''" "''   ''" demo_world] sp
  have c: "add_tag ''k'' ''   '' demo_world = (Inr None, demo_world)"
    by simp
  from add_tag_cases [of "''mode''" "''stop now''" demo_world] st
  have d: "add_tag ''mode'' ''stop now'' demo_world = (Inr (Some '' mode=stop_now''), demo_world)"
    by simp
  from a b c d show ?thesis by simp
qed





text \<open>
  C8. \<open>get_dashboard_url\<close> replaces every occurrence of \<^verbatim>\<open>ping\<close> in the ping
  URL, not only the path segment: for the check of a service on the host
  \<^verbatim>\<open>hc.shipping.example\<close> the result names the host \<^verbatim>\<open>hc.shipchecks.example\<close>.
\<close>

theorem dashboard_url_rewrites_host_name:
  "fst (get_dashboard_url demo_host (demo_globals ''backup-abort'') ''100-qemu'' ''rwkey''
          ''https://hc.shipping.example'' demo_world)
     = Inr ''https://hc.shipchecks.example/checks/1f0e/details''"
  by (simp add: get_dashboard_url_def Let_def replace_def)





end
